theory Spec2Isabelle
  imports Complex_Main
begin

section \<open>Values of the pose table\<close>

text \<open>
  The extractor reads a pandas DataFrame of pose landmarks: one row per video frame, a
  column \<open>frame\<close> and columns \<open>NAME_x\<close>, \<open>NAME_y\<close>, ... of 64-bit floats.
  A float is modelled as a real number or NaN: \<open>None\<close> is NaN, the missing-data
  marker of pandas and numpy. Rounding, overflow and infinities are not modelled.
\<close>

type_synonym cell = "real option"

type_synonym point = "cell \<times> cell"

definition f_add :: "cell \<Rightarrow> cell \<Rightarrow> cell" where
  "f_add a b = (case a of None \<Rightarrow> None | Some x \<Rightarrow> (case b of None \<Rightarrow> None | Some y \<Rightarrow> Some (x + y)))"

definition f_sub :: "cell \<Rightarrow> cell \<Rightarrow> cell" where
  "f_sub a b = (case a of None \<Rightarrow> None | Some x \<Rightarrow> (case b of None \<Rightarrow> None | Some y \<Rightarrow> Some (x - y)))"

definition f_mul :: "cell \<Rightarrow> cell \<Rightarrow> cell" where
  "f_mul a b = (case a of None \<Rightarrow> None | Some x \<Rightarrow> (case b of None \<Rightarrow> None | Some y \<Rightarrow> Some (x * y)))"

text \<open>
  Division of numpy floats: a zero divisor raises nothing (numpy warns and goes on);
  \<open>0 / 0\<close> is NaN. A non-zero value over zero would be an infinity, which cells do not
  carry; the one division of the program that can meet a zero divisor is the one of
  \<open>calculate_angle\<close>, where a zero divisor comes with a zero dividend (lemma
  \<open>zero_norm_zero_dot\<close> below). The model gives NaN in both cases.
\<close>

definition f_div :: "cell \<Rightarrow> cell \<Rightarrow> cell" where
  "f_div a b = (case a of None \<Rightarrow> None | Some x \<Rightarrow>
     (case b of None \<Rightarrow> None | Some y \<Rightarrow> if y = 0 then None else Some (x / y)))"

section \<open>Angle Calculator\<close>

definition vsub :: "point \<Rightarrow> point \<Rightarrow> point" where
  "vsub a b = (f_sub (fst a) (fst b), f_sub (snd a) (snd b))"

definition np_dot :: "point \<Rightarrow> point \<Rightarrow> cell" where
  "np_dot u v = f_add (f_mul (fst u) (fst v)) (f_mul (snd u) (snd v))"

definition np_norm :: "point \<Rightarrow> cell" where
  "np_norm u = map_option sqrt (f_add (f_mul (fst u) (fst u)) (f_mul (snd u) (snd u)))"

definition np_clip :: "cell \<Rightarrow> real \<Rightarrow> real \<Rightarrow> cell" where
  "np_clip x lo hi = map_option (\<lambda>r. min hi (max lo r)) x"

definition np_arccos :: "cell \<Rightarrow> cell" where
  "np_arccos x = map_option arccos x"

definition np_degrees :: "cell \<Rightarrow> cell" where
  "np_degrees x = map_option (\<lambda>r. r * 180 / pi) x"

text \<open>
  \<open>calculate_angle(a, b, c)\<close>: the angle at \<open>b\<close> between the vectors to \<open>a\<close>
  and to \<open>c\<close>, in degrees. The function has no error branch: numpy propagates NaN
  and turns \<open>0 / 0\<close> into NaN.
\<close>

definition calculate_angle :: "point \<Rightarrow> point \<Rightarrow> point \<Rightarrow> cell" where
  "calculate_angle a b c =
     (let ba = vsub a b;
          bc = vsub c b;
          cosine = f_div (np_dot ba bc) (f_mul (np_norm ba) (np_norm bc))
      in np_degrees (np_arccos (np_clip cosine (- 1) 1)))"

text \<open>A point whose two coordinates are numbers.\<close>

definition pt :: "real \<times> real \<Rightarrow> point" where
  "pt p = (Some (fst p), Some (snd p))"

section \<open>Python exceptions\<close>

text \<open>
  Every raise of the modelled code is a value: a function that can raise returns
  \<open>py_error + 'a\<close>, with \<open>Inl\<close> for the exception. The last two classes derive from
  \<open>BaseException\<close> only, so an \<open>except Exception\<close> clause lets them through.
\<close>

datatype py_error =
    KeyError string
  | IndexError string
  | ValueError string
  | TypeError string
  | AttributeError string
  | KeyboardInterrupt
  | SystemExit

fun is_Exception :: "py_error \<Rightarrow> bool" where
  "is_Exception KeyboardInterrupt = False"
| "is_Exception SystemExit = False"
| "is_Exception e = True"

text \<open>\<open>str(e)\<close>: the message; a \<open>KeyError\<close> prints its key in quotes.\<close>

fun py_str :: "py_error \<Rightarrow> string" where
  "py_str (KeyError k) = CHR 0x27 # k @ [CHR 0x27]"
| "py_str (IndexError m) = m"
| "py_str (ValueError m) = m"
| "py_str (TypeError m) = m"
| "py_str (AttributeError m) = m"
| "py_str KeyboardInterrupt = []"
| "py_str SystemExit = []"

definition bind_err :: "py_error + 'a \<Rightarrow> ('a \<Rightarrow> py_error + 'b) \<Rightarrow> py_error + 'b" where
  "bind_err m f = (case m of Inl e \<Rightarrow> Inl e | Inr x \<Rightarrow> f x)"

section \<open>The landmark table\<close>

text \<open>
  A row of the DataFrame: its \<open>frame\<close> number and its other columns by name. A column
  the table does not have is \<open>None\<close> of the map; a column whose cell is NaN in this row
  is \<open>Some None\<close>.
\<close>

record row =
  frame :: int
  cols :: "string \<rightharpoonup> cell"

type_synonym dataframe = "row list"

text \<open>\<open>row.get(k, default)\<close> never raises; \<open>row[k]\<close> raises \<open>KeyError\<close>.\<close>

definition row_get :: "row \<Rightarrow> string \<Rightarrow> cell \<Rightarrow> cell" where
  "row_get r k dflt = (case cols r k of None \<Rightarrow> dflt | Some v \<Rightarrow> v)"

definition row_item :: "row \<Rightarrow> string \<Rightarrow> py_error + cell" where
  "row_item r k = (case cols r k of None \<Rightarrow> Inl (KeyError k) | Some v \<Rightarrow> Inr v)"

text \<open>\<open>df.iloc[i]\<close>: a negative position counts from the end; out of range raises.\<close>

definition iloc :: "dataframe \<Rightarrow> int \<Rightarrow> py_error + row" where
  "iloc d i =
     (let n = int (length d); j = (if i < 0 then n + i else i)
      in if 0 \<le> j \<and> j < n then Inr (d ! nat j)
         else Inl (IndexError ''single positional indexer is out-of-bounds''))"

section \<open>numpy helpers\<close>

text \<open>
  \<open>np.argmax\<close> and \<open>np.argmin\<close> of a sequence without NaN: the position of the first
  occurrence of the extreme value; an empty sequence raises \<open>ValueError\<close>.
\<close>

fun first_max :: "real list \<Rightarrow> nat" where
  "first_max [] = 0"
| "first_max (x # xs) = (if list_all (\<lambda>y. y \<le> x) xs then 0 else Suc (first_max xs))"

fun first_min :: "real list \<Rightarrow> nat" where
  "first_min [] = 0"
| "first_min (x # xs) = (if list_all (\<lambda>y. x \<le> y) xs then 0 else Suc (first_min xs))"

definition np_argmax :: "real list \<Rightarrow> py_error + nat" where
  "np_argmax xs =
     (if xs = [] then Inl (ValueError ''attempt to get argmax of an empty sequence'')
      else Inr (first_max xs))"

definition np_argmin :: "real list \<Rightarrow> py_error + nat" where
  "np_argmin xs =
     (if xs = [] then Inl (ValueError ''attempt to get argmin of an empty sequence'')
      else Inr (first_min xs))"

section \<open>Event Detector\<close>

record extractor =
  df :: dataframe
  ffc_frame :: "int option"
  ball_release_frame :: "int option"

text \<open>
  \<open>__init__\<close>: both events start as Python's \<open>None\<close>. (The attribute \<open>features\<close> is
  set to an empty list and never read.)
\<close>

definition init_extractor :: "dataframe \<Rightarrow> extractor" where
  "init_extractor landmarks_df =
     \<lparr>df = landmarks_df, ffc_frame = None, ball_release_frame = None\<rparr>"

text \<open>The list \<open>front_ankle_y\<close> built by the loop over the rows.\<close>

definition front_ankle_y :: "dataframe \<Rightarrow> cell list" where
  "front_ankle_y d = map (\<lambda>r. row_get r ''RIGHT_ANKLE_y'' None) d"

text \<open>
  The loop also computes a hip-shoulder separation per row, with \<open>row.get(k, 0)\<close>; the
  list is never read afterwards.
\<close>

definition hip_shoulder_separation :: "dataframe \<Rightarrow> cell list" where
  "hip_shoulder_separation d =
     map (\<lambda>r. calculate_angle
            (row_get r ''LEFT_HIP_x'' (Some 0), row_get r ''LEFT_HIP_y'' (Some 0))
            (row_get r ''RIGHT_SHOULDER_x'' (Some 0), row_get r ''RIGHT_SHOULDER_y'' (Some 0))
            (row_get r ''RIGHT_HIP_x'' (Some 0), row_get r ''RIGHT_HIP_y'' (Some 0))) d"

text \<open>\<open>valid_indices.any()\<close>, \<open>np.where(valid_indices)[0]\<close> and \<open>front_ankle_y[valid_indices]\<close>.\<close>

definition any_valid :: "cell list \<Rightarrow> bool" where
  "any_valid ys = list_ex (\<lambda>y. y \<noteq> None) ys"

definition ffc_candidates :: "cell list \<Rightarrow> nat list" where
  "ffc_candidates ys = filter (\<lambda>i. ys ! i \<noteq> None) [0 ..< length ys]"

definition valid_values :: "cell list \<Rightarrow> real list" where
  "valid_values ys = concat (map (\<lambda>y. case y of None \<Rightarrow> [] | Some v \<Rightarrow> [v]) ys)"

text \<open>\<open>ffc_frame_idx = ffc_candidates[np.argmax(front_ankle_y[valid_indices])]\<close>\<close>

definition ffc_frame_idx :: "dataframe \<Rightarrow> nat" where
  "ffc_frame_idx d = ffc_candidates (front_ankle_y d) ! first_max (valid_values (front_ankle_y d))"

definition detect_front_foot_contact :: "extractor \<Rightarrow> py_error + extractor" where
  "detect_front_foot_contact self =
     (let ys = front_ankle_y (df self);
          n = int (length (df self))
      in if any_valid ys then
           bind_err (np_argmax (valid_values ys)) (\<lambda>k.
           let idx = int (ffc_candidates ys ! k) in
           bind_err (iloc (df self) idx) (\<lambda>r.
           let release_offset = min 8 (n - idx - 1) in
           if release_offset > 0 then
             bind_err (iloc (df self) (idx + release_offset)) (\<lambda>r2.
               Inr (self\<lparr>ffc_frame := Some (frame r), ball_release_frame := Some (frame r2)\<rparr>))
           else
             Inr (self\<lparr>ffc_frame := Some (frame r), ball_release_frame := Some (frame r)\<rparr>)))
         else
           let mid_frame = n div 2 in
           bind_err (iloc (df self) mid_frame) (\<lambda>r.
           bind_err (iloc (df self) (min (mid_frame + 5) (n - 1))) (\<lambda>r2.
             Inr (self\<lparr>ffc_frame := Some (frame r), ball_release_frame := Some (frame r2)\<rparr>))))"


section \<open>Frame Feature Extractor\<close>

text \<open>
  One entry of \<open>frame_features\<close>: the dictionary built per frame, its keys as fields
  (\<open>feat_frame\<close> is the key \<open>frame\<close>).
\<close>

record feature_record =
  feat_frame :: int
  phase :: string
  is_ball_release :: bool
  is_ffc :: bool
  Elbow_Angle :: cell
  Front_Knee_Angle :: cell
  Back_Knee_Angle :: cell
  Trunk_Lean :: cell
  Hip_Shoulder_Separation :: cell
  Shoulder_Alignment :: cell
  Bowling_Arm_Angle :: cell
  Non_Bowling_Arm_Angle :: cell
  Head_Position :: cell
  Pelvis_Rotation :: cell
  Front_Ankle_Angle :: cell
  Back_Ankle_Angle :: cell
  Spine_Angle :: cell

text \<open>\<open>(row["NAME_x"], row["NAME_y"])\<close>, reading \<open>x\<close> first.\<close>

definition lm :: "row \<Rightarrow> string \<Rightarrow> py_error + point" where
  "lm r name =
     bind_err (row_item r (name @ ''_x'')) (\<lambda>x.
     bind_err (row_item r (name @ ''_y'')) (\<lambda>y. Inr (x, y)))"

text \<open>\<open>calculate_angle\<close> of three landmarks of the row, read in the order a, b, c.\<close>

definition angle_of :: "row \<Rightarrow> string \<Rightarrow> string \<Rightarrow> string \<Rightarrow> py_error + cell" where
  "angle_of r a b c =
     bind_err (lm r a) (\<lambda>pa.
     bind_err (lm r b) (\<lambda>pb.
     bind_err (lm r c) (\<lambda>pc. Inr (calculate_angle pa pb pc))))"

text \<open>\<open>abs(row["LEFT_SHOULDER_y"] - row["RIGHT_SHOULDER_y"]) * 57.2958\<close>\<close>

definition shoulder_alignment_of :: "row \<Rightarrow> py_error + cell" where
  "shoulder_alignment_of r =
     bind_err (row_item r ''LEFT_SHOULDER_y'') (\<lambda>l.
     bind_err (row_item r ''RIGHT_SHOULDER_y'') (\<lambda>rs.
       Inr (f_mul (map_option abs (f_sub l rs)) (Some 57.2958))))"

text \<open>The reference points: 10 units to the right of a point, and the middle of two points.\<close>

definition offset_x :: "point \<Rightarrow> point" where
  "offset_x p = (f_add (fst p) (Some 10), snd p)"

definition midpoint :: "point \<Rightarrow> point \<Rightarrow> point" where
  "midpoint a b = (f_div (f_add (fst a) (fst b)) (Some 2), f_div (f_add (snd a) (snd b)) (Some 2))"

text \<open>Pelvis rotation: the hip line against a point 10 units right of the right hip.\<close>

definition pelvis_rotation_of :: "row \<Rightarrow> py_error + cell" where
  "pelvis_rotation_of r =
     bind_err (lm r ''LEFT_HIP'') (\<lambda>lh.
     bind_err (lm r ''RIGHT_HIP'') (\<lambda>rh.
     bind_err (lm r ''RIGHT_HIP'') (\<lambda>rh2.
       Inr (calculate_angle lh rh (offset_x rh2)))))"

text \<open>
  The midpoint \<open>((row[a_x] + row[b_x]) / 2, (row[a_y] + row[b_y]) / 2)\<close>, the columns
  read in this order.
\<close>

definition midpoint_of :: "row \<Rightarrow> string \<Rightarrow> string \<Rightarrow> py_error + point" where
  "midpoint_of r a b =
     bind_err (row_item r (a @ ''_x'')) (\<lambda>ax.
     bind_err (row_item r (b @ ''_x'')) (\<lambda>bx.
     bind_err (row_item r (a @ ''_y'')) (\<lambda>ay.
     bind_err (row_item r (b @ ''_y'')) (\<lambda>b_y.
       Inr (midpoint (ax, ay) (bx, b_y))))))"

text \<open>Spine angle: hip midpoint, shoulder midpoint, and a point 10 units right of it.\<close>

definition spine_angle_of :: "row \<Rightarrow> py_error + cell" where
  "spine_angle_of r =
     bind_err (midpoint_of r ''LEFT_HIP'' ''RIGHT_HIP'') (\<lambda>hip_mid.
     bind_err (midpoint_of r ''LEFT_SHOULDER'' ''RIGHT_SHOULDER'') (\<lambda>sh_mid.
     bind_err (midpoint_of r ''LEFT_SHOULDER'' ''RIGHT_SHOULDER'') (\<lambda>sh_mid2.
       Inr (calculate_angle hip_mid sh_mid (offset_x sh_mid2)))))"

text \<open>The dictionary the \<open>except\<close> branch appends: every feature NaN, both flags False.\<close>

definition nan_features :: "int \<Rightarrow> feature_record" where
  "nan_features f =
     \<lparr>feat_frame = f, phase = ''post_ffc'', is_ball_release = False, is_ffc = False,
      Elbow_Angle = None, Front_Knee_Angle = None, Back_Knee_Angle = None, Trunk_Lean = None,
      Hip_Shoulder_Separation = None, Shoulder_Alignment = None, Bowling_Arm_Angle = None,
      Non_Bowling_Arm_Angle = None, Head_Position = None, Pelvis_Rotation = None,
      Front_Ankle_Angle = None, Back_Ankle_Angle = None, Spine_Angle = None\<rparr>"

text \<open>
  The part of the \<open>try\<close> block after the back knee angle has been appended: the other
  ten values, then the dictionary of the frame.
\<close>

definition rest_of_frame :: "extractor \<Rightarrow> row \<Rightarrow> cell \<Rightarrow> cell \<Rightarrow> cell \<Rightarrow> py_error + feature_record" where
  "rest_of_frame self r front_knee_angle elbow_angle back_knee_angle =
     bind_err (angle_of r ''LEFT_SHOULDER'' ''RIGHT_HIP'' ''RIGHT_KNEE'') (\<lambda>trunk_angle.
     bind_err (angle_of r ''LEFT_HIP'' ''RIGHT_SHOULDER'' ''RIGHT_HIP'') (\<lambda>separation.
     bind_err (shoulder_alignment_of r) (\<lambda>shoulder_alignment.
     bind_err (angle_of r ''RIGHT_SHOULDER'' ''RIGHT_ELBOW'' ''RIGHT_WRIST'') (\<lambda>bowling_arm_angle.
     bind_err (angle_of r ''LEFT_SHOULDER'' ''LEFT_ELBOW'' ''LEFT_WRIST'') (\<lambda>non_bowling_arm_angle.
     bind_err (angle_of r ''LEFT_SHOULDER'' ''NOSE'' ''RIGHT_SHOULDER'') (\<lambda>head_tilt.
     bind_err (pelvis_rotation_of r) (\<lambda>pelvis_rotation.
     bind_err (angle_of r ''RIGHT_KNEE'' ''RIGHT_ANKLE'' ''RIGHT_FOOT_INDEX'') (\<lambda>front_ankle_angle.
     bind_err (angle_of r ''LEFT_KNEE'' ''LEFT_ANKLE'' ''LEFT_FOOT_INDEX'') (\<lambda>back_ankle_angle.
     bind_err (spine_angle_of r) (\<lambda>spine_angle.
       Inr \<lparr>feat_frame = frame r, phase = ''post_ffc'',
            is_ball_release = (Some (frame r) = ball_release_frame self),
            is_ffc = (Some (frame r) = ffc_frame self),
            Elbow_Angle = elbow_angle, Front_Knee_Angle = front_knee_angle,
            Back_Knee_Angle = back_knee_angle, Trunk_Lean = trunk_angle,
            Hip_Shoulder_Separation = separation, Shoulder_Alignment = shoulder_alignment,
            Bowling_Arm_Angle = bowling_arm_angle,
            Non_Bowling_Arm_Angle = non_bowling_arm_angle, Head_Position = head_tilt,
            Pelvis_Rotation = pelvis_rotation, Front_Ankle_Angle = front_ankle_angle,
            Back_Ankle_Angle = back_ankle_angle, Spine_Angle = spine_angle\<rparr>))))))))))"

text \<open>
  One pass of the loop body over a post-FFC row: what it appends to
  \<open>front_knee_angles\<close>, to \<open>back_knee_angles\<close> and to \<open>frame_features\<close>. The knee lists
  are appended to inside the \<open>try\<close> block, so when a later read raises, the entry is
  already there and the \<open>except\<close> branch appends a second, NaN entry for the frame.
\<close>

definition process_frame ::
    "extractor \<Rightarrow> row \<Rightarrow> (int \<times> cell) list \<times> (int \<times> cell) list \<times> feature_record" where
  "process_frame self r =
     (case angle_of r ''RIGHT_HIP'' ''RIGHT_KNEE'' ''RIGHT_ANKLE'' of
        Inl e \<Rightarrow> ([(frame r, None)], [(frame r, None)], nan_features (frame r))
      | Inr front_knee_angle \<Rightarrow>
          (case bind_err (angle_of r ''RIGHT_SHOULDER'' ''RIGHT_ELBOW'' ''RIGHT_WRIST'') (\<lambda>elbow_angle.
                bind_err (angle_of r ''LEFT_HIP'' ''LEFT_KNEE'' ''LEFT_ANKLE'') (\<lambda>back_knee_angle.
                  Inr (elbow_angle, back_knee_angle))) of
             Inl e \<Rightarrow> ([(frame r, front_knee_angle), (frame r, None)], [(frame r, None)],
                        nan_features (frame r))
           | Inr (elbow_angle, back_knee_angle) \<Rightarrow>
               (case rest_of_frame self r front_knee_angle elbow_angle back_knee_angle of
                  Inl e \<Rightarrow> ([(frame r, front_knee_angle), (frame r, None)],
                             [(frame r, back_knee_angle), (frame r, None)],
                             nan_features (frame r))
                | Inr features \<Rightarrow> ([(frame r, front_knee_angle)], [(frame r, back_knee_angle)],
                                    features))))"

text \<open>
  What \<open>extract_features_post_ffc\<close> returns: an empty DataFrame alone when no row is at
  or after the FFC frame, otherwise the triple of the feature table and the two knee lists.
\<close>

datatype extract_result =
    EmptyFrame
  | Extracted "feature_record list" "(int \<times> cell) list" "(int \<times> cell) list"

definition extract_features_post_ffc :: "extractor \<Rightarrow> py_error + extractor \<times> extract_result" where
  "extract_features_post_ffc self0 =
     bind_err (if ffc_frame self0 = None then detect_front_foot_contact self0 else Inr self0) (\<lambda>self.
       case ffc_frame self of
         None \<Rightarrow> Inl (TypeError ''Invalid comparison between dtype=int64 and NoneType'')
       | Some ffc \<Rightarrow>
           (let post_ffc_frames = filter (\<lambda>r. frame r \<ge> ffc) (df self) in
            if post_ffc_frames = [] then Inr (self, EmptyFrame)
            else
              let done = map (process_frame self) post_ffc_frames in
              Inr (self, Extracted (map (\<lambda>t. snd (snd t)) done)
                                   (concat (map fst done))
                                   (concat (map (\<lambda>t. fst (snd t)) done)))))"

subsection \<open>The features of a frame, landmark by landmark\<close>

text \<open>
  The landmarks the loop body reads, and whether a row has both columns of a landmark
  (\<open>has_lm\<close>) or of all of them (\<open>has_columns\<close>). \<open>lmk\<close> is the point of a landmark
  with an absent column read as NaN; a point is \<open>numeric\<close> when neither coordinate is
  NaN.
\<close>

definition landmarks :: "string list" where
  "landmarks =
     [''NOSE'', ''LEFT_SHOULDER'', ''RIGHT_SHOULDER'', ''LEFT_ELBOW'', ''RIGHT_ELBOW'',
      ''LEFT_WRIST'', ''RIGHT_WRIST'', ''LEFT_HIP'', ''RIGHT_HIP'', ''LEFT_KNEE'',
      ''RIGHT_KNEE'', ''LEFT_ANKLE'', ''RIGHT_ANKLE'', ''LEFT_FOOT_INDEX'',
      ''RIGHT_FOOT_INDEX'']"

definition has_lm :: "row \<Rightarrow> string \<Rightarrow> bool" where
  "has_lm r name = (cols r (name @ ''_x'') \<noteq> None \<and> cols r (name @ ''_y'') \<noteq> None)"

definition has_columns :: "row \<Rightarrow> bool" where
  "has_columns r = list_all (has_lm r) landmarks"

definition lmk :: "row \<Rightarrow> string \<Rightarrow> point" where
  "lmk r name = (row_get r (name @ ''_x'') None, row_get r (name @ ''_y'') None)"

definition numeric :: "point \<Rightarrow> bool" where
  "numeric p = (fst p \<noteq> None \<and> snd p \<noteq> None)"

text \<open>
  The feature record of a frame as the design describes it: every feature computed from
  its own landmarks alone. It is compared with what the loop body appends in the
  theorem for claim C2.
\<close>

definition landmark_features :: "extractor \<Rightarrow> row \<Rightarrow> feature_record" where
  "landmark_features self r =
     \<lparr>feat_frame = frame r, phase = ''post_ffc'',
      is_ball_release = (Some (frame r) = ball_release_frame self),
      is_ffc = (Some (frame r) = ffc_frame self),
      Elbow_Angle =
        calculate_angle (lmk r ''RIGHT_SHOULDER'') (lmk r ''RIGHT_ELBOW'') (lmk r ''RIGHT_WRIST''),
      Front_Knee_Angle =
        calculate_angle (lmk r ''RIGHT_HIP'') (lmk r ''RIGHT_KNEE'') (lmk r ''RIGHT_ANKLE''),
      Back_Knee_Angle =
        calculate_angle (lmk r ''LEFT_HIP'') (lmk r ''LEFT_KNEE'') (lmk r ''LEFT_ANKLE''),
      Trunk_Lean =
        calculate_angle (lmk r ''LEFT_SHOULDER'') (lmk r ''RIGHT_HIP'') (lmk r ''RIGHT_KNEE''),
      Hip_Shoulder_Separation =
        calculate_angle (lmk r ''LEFT_HIP'') (lmk r ''RIGHT_SHOULDER'') (lmk r ''RIGHT_HIP''),
      Shoulder_Alignment =
        f_mul (map_option abs (f_sub (snd (lmk r ''LEFT_SHOULDER'')) (snd (lmk r ''RIGHT_SHOULDER''))))
              (Some 57.2958),
      Bowling_Arm_Angle =
        calculate_angle (lmk r ''RIGHT_SHOULDER'') (lmk r ''RIGHT_ELBOW'') (lmk r ''RIGHT_WRIST''),
      Non_Bowling_Arm_Angle =
        calculate_angle (lmk r ''LEFT_SHOULDER'') (lmk r ''LEFT_ELBOW'') (lmk r ''LEFT_WRIST''),
      Head_Position =
        calculate_angle (lmk r ''LEFT_SHOULDER'') (lmk r ''NOSE'') (lmk r ''RIGHT_SHOULDER''),
      Pelvis_Rotation =
        calculate_angle (lmk r ''LEFT_HIP'') (lmk r ''RIGHT_HIP'') (offset_x (lmk r ''RIGHT_HIP'')),
      Front_Ankle_Angle =
        calculate_angle (lmk r ''RIGHT_KNEE'') (lmk r ''RIGHT_ANKLE'') (lmk r ''RIGHT_FOOT_INDEX''),
      Back_Ankle_Angle =
        calculate_angle (lmk r ''LEFT_KNEE'') (lmk r ''LEFT_ANKLE'') (lmk r ''LEFT_FOOT_INDEX''),
      Spine_Angle =
        calculate_angle (midpoint (lmk r ''LEFT_HIP'') (lmk r ''RIGHT_HIP''))
                        (midpoint (lmk r ''LEFT_SHOULDER'') (lmk r ''RIGHT_SHOULDER''))
                        (offset_x (midpoint (lmk r ''LEFT_SHOULDER'') (lmk r ''RIGHT_SHOULDER'')))\<rparr>"

section \<open>Phase Analyzer\<close>

text \<open>\<open>[(frame, angle) for frame, angle in xs if not np.isnan(angle)]\<close>\<close>

definition valid_angles :: "(int \<times> cell) list \<Rightarrow> (int \<times> real) list" where
  "valid_angles xs = concat (map (\<lambda>(f, a). case a of None \<Rightarrow> [] | Some v \<Rightarrow> [(f, v)]) xs)"

text \<open>
  The seven values an analysis returns, in the order of the source: contact angle, angle
  at maximum flexion, angle at maximum extension, the three frames, and the deviation.
  The result \<open>None\<close> stands for the tuple of seven \<open>None\<close>.
\<close>

type_synonym knee_phases = "cell \<times> cell \<times> cell \<times> int \<times> int \<times> int \<times> cell"

definition deviation :: "cell \<Rightarrow> cell \<Rightarrow> cell" where
  "deviation max_extension_angle contact_angle =
     (if contact_angle \<noteq> None \<and> max_extension_angle \<noteq> None
      then f_sub max_extension_angle contact_angle else None)"

definition analyze_front_knee_phases :: "(int \<times> cell) list \<Rightarrow> py_error + knee_phases option" where
  "analyze_front_knee_phases front_knee_angles =
     (if front_knee_angles = [] then Inr None
      else
        let valid = valid_angles front_knee_angles in
        if valid = [] then Inr None
        else
          let frames = map fst valid;
              angles = map snd valid;
              ffc_angle = Some (angles ! 0);
              ffc_frame_v = frames ! 0
          in bind_err (np_argmin angles) (\<lambda>max_flex_idx.
             bind_err (np_argmax angles) (\<lambda>max_ext_idx.
             let max_flexion_angle = Some (angles ! max_flex_idx);
                 max_flexion_frame = frames ! max_flex_idx;
                 max_extension_angle = Some (angles ! max_ext_idx);
                 max_extension_frame = frames ! max_ext_idx;
                 knee_angle_deviation = deviation max_extension_angle ffc_angle
             in Inr (Some (ffc_angle, max_flexion_angle, max_extension_angle, ffc_frame_v,
                           max_flexion_frame, max_extension_frame, knee_angle_deviation)))))"

definition analyze_back_knee_phases :: "(int \<times> cell) list \<Rightarrow> py_error + knee_phases option" where
  "analyze_back_knee_phases back_knee_angles_list =
     (if back_knee_angles_list = [] then Inr None
      else
        let valid = valid_angles back_knee_angles_list in
        if valid = [] then Inr None
        else
          let frames = map fst valid;
              angles = map snd valid;
              bfc_frame = frames ! 0;
              bfc_angle = Some (angles ! 0)
          in bind_err (np_argmin angles) (\<lambda>max_flex_idx.
             let max_flexion_angle = Some (angles ! max_flex_idx);
                 max_flexion_frame = frames ! max_flex_idx;
                 latter_half_start = length angles div 2
             in bind_err (np_argmax (drop latter_half_start angles)) (\<lambda>max_ext_idx_relative.
             let max_ext_idx = latter_half_start + max_ext_idx_relative;
                 max_extension_angle = Some (angles ! max_ext_idx);
                 max_extension_frame = frames ! max_ext_idx;
                 back_knee_deviation = deviation max_extension_angle bfc_angle
             in Inr (Some (bfc_angle, max_flexion_angle, max_extension_angle, bfc_frame,
                           max_flexion_frame, max_extension_frame, back_knee_deviation)))))"


section \<open>Summary Aggregator\<close>

text \<open>A row of the report; \<open>Min_v\<close> and \<open>Max_v\<close> are the columns \<open>Min\<close> and \<open>Max\<close>.\<close>

record summary_row =
  Feature :: string
  Average :: cell
  Min_v :: cell
  Max_v :: cell
  Frames :: nat
  Measurement_Phase :: string
  FFC_Frame :: "int option"
  Release_Frame :: "int option"

text \<open>\<open>series.dropna()\<close>, and \<open>mean\<close>, \<open>min\<close>, \<open>max\<close> of a series without NaN.\<close>

definition dropna :: "cell list \<Rightarrow> real list" where
  "dropna xs = concat (map (\<lambda>x. case x of None \<Rightarrow> [] | Some v \<Rightarrow> [v]) xs)"

definition series_mean :: "real list \<Rightarrow> cell" where
  "series_mean vs = (if vs = [] then None else Some (sum_list vs / real (length vs)))"

definition series_min :: "real list \<Rightarrow> cell" where
  "series_min vs = (case vs of [] \<Rightarrow> None | v # rest \<Rightarrow> Some (fold min rest v))"

definition series_max :: "real list \<Rightarrow> cell" where
  "series_max vs = (case vs of [] \<Rightarrow> None | v # rest \<Rightarrow> Some (fold max rest v))"

text \<open>\<open>df.tail(3)\<close>: the last three rows, or all of them when there are fewer.\<close>

definition tail3 :: "'a list \<Rightarrow> 'a list" where
  "tail3 xs = drop (length xs - 3) xs"

text \<open>The dictionary appended for a series of values measured at ball release.\<close>

definition release_row :: "extractor \<Rightarrow> string \<Rightarrow> real list \<Rightarrow> summary_row" where
  "release_row self feature vals =
     \<lparr>Feature = feature, Average = series_mean vals, Min_v = series_min vals,
      Max_v = series_max vals, Frames = length vals, Measurement_Phase = ''Ball Release'',
      FFC_Frame = ffc_frame self, Release_Frame = ball_release_frame self\<rparr>"

text \<open>The dictionary appended when a comprehensive feature has no value in the window.\<close>

definition empty_row :: "extractor \<Rightarrow> string \<Rightarrow> summary_row" where
  "empty_row self feature =
     \<lparr>Feature = feature, Average = None, Min_v = None, Max_v = None, Frames = 0,
      Measurement_Phase = ''Ball Release'',
      FFC_Frame = ffc_frame self, Release_Frame = ball_release_frame self\<rparr>"

text \<open>
  A phase-specific row, appended when the value is neither Python's \<open>None\<close> nor NaN
  (both are \<open>None\<close> here); \<open>ffc\<close> is what the source writes into \<open>FFC_Frame\<close>.
\<close>

definition phase_row :: "extractor \<Rightarrow> string \<Rightarrow> cell \<Rightarrow> string \<Rightarrow> int option \<Rightarrow> summary_row list" where
  "phase_row self feature v ph ffc =
     (if v \<noteq> None
      then [\<lparr>Feature = feature, Average = v, Min_v = v, Max_v = v, Frames = 1,
             Measurement_Phase = ph, FFC_Frame = ffc,
             Release_Frame = ball_release_frame self\<rparr>]
      else [])"

text \<open>
  The four front-knee rows. The first one takes its \<open>FFC_Frame\<close> from the local
  \<open>ffc_frame\<close> returned by the front-knee analysis, the others from \<open>self.ffc_frame\<close>.
\<close>

definition front_knee_rows :: "extractor \<Rightarrow> knee_phases option \<Rightarrow> summary_row list" where
  "front_knee_rows self front =
     (case front of
        None \<Rightarrow> []
      | Some (ffc_knee, max_flex_knee, max_ext_knee, ffc_frame_v, flex_frame, ext_frame, knee_deviation) \<Rightarrow>
          phase_row self ''Front Knee at FFC'' ffc_knee ''Front Foot Contact'' (Some ffc_frame_v) @
          phase_row self ''Front Knee Max Flexion'' max_flex_knee ''Maximum Flexion'' (ffc_frame self) @
          phase_row self ''Front Knee Max Extension'' max_ext_knee ''Maximum Extension'' (ffc_frame self) @
          phase_row self ''Knee Angle Deviation'' knee_deviation ''FFC to Max Extension'' (ffc_frame self))"

definition back_knee_rows :: "extractor \<Rightarrow> knee_phases option \<Rightarrow> summary_row list" where
  "back_knee_rows self back =
     (case back of
        None \<Rightarrow> []
      | Some (bfc_knee, back_max_flex_knee, back_max_ext_knee, bfc_frame, back_flex_frame, back_ext_frame, back_knee_deviation) \<Rightarrow>
          phase_row self ''Back Knee at BFC'' bfc_knee ''Back Foot Contact'' (ffc_frame self) @
          phase_row self ''Back Knee Max Flexion'' back_max_flex_knee ''Back Maximum Flexion'' (ffc_frame self) @
          phase_row self ''Back Knee Max Extension'' back_max_ext_knee ''Back Maximum Extension'' (ffc_frame self) @
          phase_row self ''Back Knee Deviation'' back_knee_deviation ''BFC to Max Extension'' (ffc_frame self))"

text \<open>Elbow Angle and Back Knee Angle: a row only when the window has a value.\<close>

definition optional_release_row ::
    "extractor \<Rightarrow> string \<Rightarrow> (feature_record \<Rightarrow> cell) \<Rightarrow> feature_record list \<Rightarrow> summary_row list" where
  "optional_release_row self feature column release_frame_data =
     (let vals = dropna (map column release_frame_data)
      in if vals \<noteq> [] then [release_row self feature vals] else [])"

text \<open>The list \<open>comprehensive_features\<close>: feature name and column.\<close>

definition comprehensive_features :: "(string \<times> (feature_record \<Rightarrow> cell)) list" where
  "comprehensive_features =
     [(''Trunk Lean'', Trunk_Lean),
      (''Hip-Shoulder Separation'', Hip_Shoulder_Separation),
      (''Shoulder Alignment'', Shoulder_Alignment),
      (''Bowling Arm Angle'', Bowling_Arm_Angle),
      (''Non-Bowling Arm Angle'', Non_Bowling_Arm_Angle),
      (''Head Position'', Head_Position),
      (''Pelvis Rotation'', Pelvis_Rotation),
      (''Front Ankle Angle'', Front_Ankle_Angle),
      (''Back Ankle Angle'', Back_Ankle_Angle),
      (''Spine Angle'', Spine_Angle)]"

text \<open>The body of the loop over \<open>comprehensive_features\<close>: always one row.\<close>

definition comprehensive_row ::
    "extractor \<Rightarrow> feature_record list \<Rightarrow> string \<times> (feature_record \<Rightarrow> cell) \<Rightarrow> summary_row" where
  "comprehensive_row self release_frame_data fc =
     (let vals = dropna (map (snd fc) release_frame_data)
      in if vals \<noteq> [] then release_row self (fst fc) vals else empty_row self (fst fc))"

text \<open>The release window: the rows flagged as ball release, else the last three rows.\<close>

definition release_window :: "feature_record list \<Rightarrow> feature_record list" where
  "release_window post_ffc_features =
     (let release_frame_data = filter is_ball_release post_ffc_features
      in if release_frame_data = [] then tail3 post_ffc_features else release_frame_data)"

text \<open>
  \<open>calculate_biomechanical_summary\<close>. Unpacking the result of the extraction into three
  names raises \<open>ValueError\<close> when the result is the empty DataFrame alone.
\<close>

definition calculate_biomechanical_summary :: "extractor \<Rightarrow> py_error + summary_row list" where
  "calculate_biomechanical_summary self0 =
     bind_err (extract_features_post_ffc self0) (\<lambda>(self, result).
       case result of
         EmptyFrame \<Rightarrow> Inl (ValueError ''not enough values to unpack (expected 3, got 0)'')
       | Extracted post_ffc_features front_knee_angles back_knee_angles_list \<Rightarrow>
           if post_ffc_features = [] then Inr []
           else
             bind_err (analyze_front_knee_phases front_knee_angles) (\<lambda>front.
             bind_err (analyze_back_knee_phases back_knee_angles_list) (\<lambda>back.
             let release_frame_data = release_window post_ffc_features
             in Inr (optional_release_row self ''Elbow Angle'' Elbow_Angle release_frame_data @
                     front_knee_rows self front @
                     back_knee_rows self back @
                     optional_release_row self ''Back Knee Angle'' Back_Knee_Angle release_frame_data @
                     map (comprehensive_row self release_frame_data) comprehensive_features))))"

section \<open>The entry point\<close>

text \<open>
  \<open>analyze_bowling(video_path)\<close> hands its argument to the extractor as the landmark
  table. Python checks no type there: the argument is a string (what the upload handler
  passes) or a DataFrame. On a string the first use of the table,
  \<open>self.df.iterrows()\<close> in \<open>detect_front_foot_contact\<close>, raises \<open>AttributeError\<close>.
\<close>

datatype py_value = PyStr string | PyDataFrame dataframe

definition summary_of :: "py_value \<Rightarrow> py_error + summary_row list" where
  "summary_of v =
     (case v of
        PyStr s \<Rightarrow> Inl (AttributeError ''str object has no attribute iterrows'')
      | PyDataFrame d \<Rightarrow> calculate_biomechanical_summary (init_extractor d))"

text \<open>The dictionary returned; \<open>details\<close> is present on success only.\<close>

record response =
  status :: string
  message :: string
  details :: "summary_row list option"

text \<open>
  \<open>try: ... except Exception as e: ...\<close> around the whole analysis: an exception of
  class \<open>Exception\<close> becomes the error dictionary, any other one propagates.
\<close>

definition analyze_bowling :: "py_value \<Rightarrow> py_error + response" where
  "analyze_bowling video_path =
     (case summary_of video_path of
        Inr result \<Rightarrow>
          Inr \<lparr>status = ''success'', message = ''Video analyzed successfully'',
               details = Some result\<rparr>
      | Inl e \<Rightarrow>
          if is_Exception e
          then Inr \<lparr>status = ''error'', message = py_str e, details = None\<rparr>
          else Inl e)"


section \<open>Example tables\<close>






text \<open>A back-knee series: frames 1 to 5, the angle of frame 2 missing.\<close>

definition back_knee_series :: "(int \<times> cell) list" where
  "back_knee_series = [(1, Some 170), (2, None), (3, Some 90), (4, Some 160), (5, Some 165)]"

text \<open>
  A standing pose in normalized image coordinates (y grows downwards), as the columns of
  one row; \<open>pose_row f changes\<close> is frame \<open>f\<close> in that pose with some cells changed.
\<close>

definition pose :: "(string \<times> cell) list" where
  "pose =
     [(''NOSE_x'', Some 0.5), (''NOSE_y'', Some 0.2),
      (''LEFT_SHOULDER_x'', Some 0.55), (''LEFT_SHOULDER_y'', Some 0.3),
      (''RIGHT_SHOULDER_x'', Some 0.45), (''RIGHT_SHOULDER_y'', Some 0.3),
      (''LEFT_ELBOW_x'', Some 0.6), (''LEFT_ELBOW_y'', Some 0.4),
      (''RIGHT_ELBOW_x'', Some 0.4), (''RIGHT_ELBOW_y'', Some 0.4),
      (''LEFT_WRIST_x'', Some 0.62), (''LEFT_WRIST_y'', Some 0.5),
      (''RIGHT_WRIST_x'', Some 0.38), (''RIGHT_WRIST_y'', Some 0.5),
      (''LEFT_HIP_x'', Some 0.54), (''LEFT_HIP_y'', Some 0.55),
      (''RIGHT_HIP_x'', Some 0.46), (''RIGHT_HIP_y'', Some 0.55),
      (''LEFT_KNEE_x'', Some 0.55), (''LEFT_KNEE_y'', Some 0.7),
      (''RIGHT_KNEE_x'', Some 0.45), (''RIGHT_KNEE_y'', Some 0.7),
      (''LEFT_ANKLE_x'', Some 0.56), (''LEFT_ANKLE_y'', Some 0.85),
      (''RIGHT_ANKLE_x'', Some 0.44), (''RIGHT_ANKLE_y'', Some 0.85),
      (''LEFT_FOOT_INDEX_x'', Some 0.58), (''LEFT_FOOT_INDEX_y'', Some 0.9),
      (''RIGHT_FOOT_INDEX_x'', Some 0.42), (''RIGHT_FOOT_INDEX_y'', Some 0.9)]"

definition pose_row :: "int \<Rightarrow> (string \<times> cell) list \<Rightarrow> row" where
  "pose_row f changes = \<lparr>frame = f, cols = map_of (changes @ pose)\<rparr>"

text \<open>One frame whose right wrist was not detected: both of its cells are NaN.\<close>

definition wrist_missing_row :: row where
  "wrist_missing_row = pose_row 0 [(''RIGHT_WRIST_x'', None), (''RIGHT_WRIST_y'', None)]"

definition wrist_missing_table :: dataframe where
  "wrist_missing_table = [wrist_missing_row]"

text \<open>
  Two frames: the front ankle is lowest in frame 0, where the right knee was not
  detected; in frame 1 the ankle is a little higher and every landmark is there.
\<close>

definition knee_missing_row :: row where
  "knee_missing_row = pose_row 0 [(''RIGHT_KNEE_x'', None), (''RIGHT_KNEE_y'', None)]"

definition lifted_ankle_row :: row where
  "lifted_ankle_row = pose_row 1 [(''RIGHT_ANKLE_y'', Some 0.8)]"

definition knee_missing_table :: dataframe where
  "knee_missing_table = [knee_missing_row, lifted_ankle_row]"


section \<open>Properties of the Angle Calculator\<close>

lemma zero_norm_zero_dot:
  assumes "f_mul (np_norm (vsub (pt a) (pt b))) (np_norm (vsub (pt c) (pt b))) = Some 0"
  shows "np_dot (vsub (pt a) (pt b)) (vsub (pt c) (pt b)) = Some 0"
proof -
  obtain ax ay where a: "a = (ax, ay)" by (cases a)
  obtain bx b_y where b: "b = (bx, b_y)" by (cases b)
  obtain cx cy where c: "c = (cx, cy)" by (cases c)
  from assms have "sqrt ((ax - bx) * (ax - bx) + (ay - b_y) * (ay - b_y)) = 0
      \<or> sqrt ((cx - bx) * (cx - bx) + (cy - b_y) * (cy - b_y)) = 0"
    by (simp add: a b c pt_def vsub_def np_norm_def f_mul_def f_add_def f_sub_def)
  then have "(ax = bx \<and> ay = b_y) \<or> (cx = bx \<and> cy = b_y)"
    by (auto simp: sum_squares_eq_zero_iff)
  then show ?thesis
    by (auto simp: a b c pt_def vsub_def np_dot_def f_mul_def f_add_def f_sub_def)
qed





section \<open>Properties of the Event Detector\<close>

lemma first_max_less: "xs \<noteq> [] \<Longrightarrow> first_max xs < length xs"
  by (induction xs) (fastforce simp: list_all_iff)+

lemma first_max_ge: "y \<in> set xs \<Longrightarrow> y \<le> xs ! first_max xs"
proof (induction xs arbitrary: y)
  case Nil
  then show ?case by simp
next
  case (Cons x xs)
  show ?case
  proof (cases "list_all (\<lambda>y. y \<le> x) xs")
    case True
    with Cons.prems show ?thesis by (auto simp: list_all_iff)
  next
    case False
    then obtain z where z: "z \<in> set xs" "x < z" by (auto simp: list_all_iff not_le)
    from Cons.IH[OF z(1)] z(2) have "x \<le> xs ! first_max xs" by simp
    with False Cons show ?thesis by auto
  qed
qed

lemma first_min_less: "xs \<noteq> [] \<Longrightarrow> first_min xs < length xs"
  by (induction xs) (fastforce simp: list_all_iff)+

lemma ffc_candidates_snoc:
  "ffc_candidates (ys @ [y]) = ffc_candidates ys @ (if y \<noteq> None then [length ys] else [])"
  by (auto simp: ffc_candidates_def nth_append intro!: filter_cong)

lemma valid_values_snoc:
  "valid_values (ys @ [y]) = valid_values ys @ (case y of None \<Rightarrow> [] | Some v \<Rightarrow> [v])"
  by (simp add: valid_values_def)

lemma candidates_values:
  "length (ffc_candidates ys) = length (valid_values ys) \<and>
   (\<forall>k < length (valid_values ys). ffc_candidates ys ! k < length ys \<and>
      ys ! (ffc_candidates ys ! k) = Some (valid_values ys ! k))"
proof (induction ys rule: rev_induct)
  case Nil
  then show ?case by (simp add: ffc_candidates_def valid_values_def)
next
  case (snoc y ys)
  show ?case
  proof (cases y)
    case None
    with snoc show ?thesis
      by (auto simp: ffc_candidates_snoc valid_values_snoc nth_append less_Suc_eq)
  next
    case (Some v)
    with snoc show ?thesis
      by (auto simp: ffc_candidates_snoc valid_values_snoc nth_append less_Suc_eq)
  qed
qed

lemma valid_values_nonempty: "any_valid ys \<Longrightarrow> valid_values ys \<noteq> []"
  by (induction ys) (auto simp: any_valid_def valid_values_def split: option.splits)

lemma valid_values_set: "v \<in> set (valid_values ys) \<longleftrightarrow> Some v \<in> set ys"
  by (induction ys) (auto simp: valid_values_def split: option.splits)

lemma ffc_frame_idx_props:
  assumes "any_valid (front_ankle_y d)"
  shows "ffc_frame_idx d < length d"
    and "\<exists>v. front_ankle_y d ! ffc_frame_idx d = Some v \<and>
           (\<forall>j < length d. \<forall>w. front_ankle_y d ! j = Some w \<longrightarrow> w \<le> v)"
proof -
  let ?ys = "front_ankle_y d"
  let ?k = "first_max (valid_values ?ys)"
  have ne: "valid_values ?ys \<noteq> []" using assms by (rule valid_values_nonempty)
  then have k: "?k < length (valid_values ?ys)" by (rule first_max_less)
  with candidates_values[of ?ys]
  have c: "ffc_candidates ?ys ! ?k < length ?ys"
    "?ys ! (ffc_candidates ?ys ! ?k) = Some (valid_values ?ys ! ?k)" by auto
  show "ffc_frame_idx d < length d" using c(1) by (simp add: ffc_frame_idx_def front_ankle_y_def)
  have "\<forall>j < length d. \<forall>w. ?ys ! j = Some w \<longrightarrow> w \<le> valid_values ?ys ! ?k"
  proof (intro allI impI)
    fix j w assume j: "j < length d" and w: "?ys ! j = Some w"
    then have "Some w \<in> set ?ys" by (metis length_map front_ankle_y_def nth_mem)
    then have "w \<in> set (valid_values ?ys)" by (simp add: valid_values_set)
    then show "w \<le> valid_values ?ys ! ?k" by (rule first_max_ge)
  qed
  with c(2) show "\<exists>v. ?ys ! ffc_frame_idx d = Some v \<and>
           (\<forall>j < length d. \<forall>w. ?ys ! j = Some w \<longrightarrow> w \<le> v)"
    by (simp add: ffc_frame_idx_def)
qed

lemma detect_ankle:
  assumes "any_valid (front_ankle_y (df self))"
  shows "detect_front_foot_contact self =
     Inr (self\<lparr>ffc_frame := Some (frame (df self ! ffc_frame_idx (df self))),
               ball_release_frame :=
                 Some (frame (df self ! min (ffc_frame_idx (df self) + 8) (length (df self) - 1)))\<rparr>)"
proof -
  let ?d = "df self"
  let ?i = "ffc_frame_idx ?d"
  have i: "?i < length ?d" using assms by (rule ffc_frame_idx_props)
  have ne: "valid_values (front_ankle_y ?d) \<noteq> []" using assms by (rule valid_values_nonempty)
  have il: "iloc ?d (int ?i) = Inr (?d ! ?i)" using i by (simp add: iloc_def)
  show ?thesis
  proof (cases "Suc ?i < length ?d")
    case True
    let ?o = "min 8 (int (length ?d) - int ?i - 1)"
    have pos: "?o > 0" using True by simp
    have eq: "nat (int ?i + ?o) = min (?i + 8) (length ?d - 1)" using True by linarith
    have "0 \<le> int ?i + ?o \<and> int ?i + ?o < int (length ?d)" using True by linarith
    then have il2: "iloc ?d (int ?i + ?o) = Inr (?d ! min (?i + 8) (length ?d - 1))"
      using eq by (simp add: iloc_def Let_def)
    show ?thesis
      using assms ne il il2 pos
      by (simp add: detect_front_foot_contact_def Let_def np_argmax_def bind_err_def
          ffc_frame_idx_def[symmetric])
  next
    case False
    with i have last: "?i = length ?d - 1" by simp
    then have z: "\<not> min 8 (int (length ?d) - int ?i - 1) > 0" using i by simp
    have m: "min (?i + 8) (length ?d - 1) = ?i" using last by simp
    have "detect_front_foot_contact self =
      Inr (self\<lparr>ffc_frame := Some (frame (?d ! ?i)), ball_release_frame := Some (frame (?d ! ?i))\<rparr>)"
      using assms ne il z
      by (simp add: detect_front_foot_contact_def Let_def np_argmax_def bind_err_def
          ffc_frame_idx_def[symmetric])
    then show ?thesis by (simp only: m)
  qed
qed

lemma detect_fallback:
  assumes "\<not> any_valid (front_ankle_y (df self))" and "df self \<noteq> []"
  shows "detect_front_foot_contact self =
     Inr (self\<lparr>ffc_frame := Some (frame (df self ! (length (df self) div 2))),
               ball_release_frame :=
                 Some (frame (df self ! min (length (df self) div 2 + 5) (length (df self) - 1)))\<rparr>)"
proof -
  let ?d = "df self"
  let ?n = "length ?d"
  have n: "0 < ?n" using assms(2) by simp
  have h: "0 \<le> int ?n div 2 \<and> int ?n div 2 < int ?n \<and> nat (int ?n div 2) = ?n div 2"
    using n by linarith
  have il: "iloc ?d (int ?n div 2) = Inr (?d ! (?n div 2))"
    using h by (simp add: iloc_def Let_def)
  have eq: "nat (min (int ?n div 2 + 5) (int ?n - 1)) = min (?n div 2 + 5) (?n - 1)"
    using n by linarith
  have lo: "\<not> min (int ?n div 2 + 5) (int ?n - 1) < 0"
    using n by linarith
  have hi: "min (int ?n div 2 + 5) (int ?n - 1) < int ?n"
    using n by linarith
  have il2: "iloc ?d (min (int ?n div 2 + 5) (int ?n - 1)) = Inr (?d ! min (?n div 2 + 5) (?n - 1))"
    unfolding iloc_def Let_def using lo hi eq by (simp only: if_False if_True simp_thms not_less[symmetric])
  show ?thesis using assms(1) il il2
    by (simp add: detect_front_foot_contact_def Let_def bind_err_def)
qed

lemma detect_empty:
  assumes "df self = []"
  shows "detect_front_foot_contact self = Inl (IndexError ''single positional indexer is out-of-bounds'')"
  using assms
  by (simp add: detect_front_foot_contact_def Let_def bind_err_def iloc_def front_ankle_y_def any_valid_def)










text \<open>
  Claim C3. On a table with no rows the code does not do what the claim says: no frame
  has an ankle value, the fallback reads \<open>self.df.iloc[0]\<close>, and that raises
  \<open>IndexError\<close>, out of the detector and out of the summary.
\<close>

theorem empty_sequence_raises:
  "detect_front_foot_contact (init_extractor []) =
     Inl (IndexError ''single positional indexer is out-of-bounds'') \<and>
   calculate_biomechanical_summary (init_extractor []) =
     Inl (IndexError ''single positional indexer is out-of-bounds'')"
  by (simp add: detect_empty init_extractor_def calculate_biomechanical_summary_def
      extract_features_post_ffc_def bind_err_def)

section \<open>Properties of the Phase Analyzer\<close>

lemma first_max_drop_ge:
  assumes "k \<le> q" "q < length xs"
  shows "xs ! q \<le> xs ! (k + first_max (drop k xs))"
proof -
  have "xs ! q \<in> set (drop k xs)"
  proof -
    have "drop k xs ! (q - k) = xs ! q" using assms by simp
    moreover have "q - k < length (drop k xs)" using assms by simp
    ultimately show ?thesis by (metis nth_mem)
  qed
  then have "xs ! q \<le> drop k xs ! first_max (drop k xs)" by (rule first_max_ge)
  moreover have "first_max (drop k xs) < length (drop k xs)"
    using assms by (intro first_max_less) simp
  ultimately show ?thesis using assms by simp
qed

text \<open>
  Claim C9. When the back-knee series has at least two defined entries, the analysis
  returns as maximum extension the entry at a position of the filtered series that is at
  least half its length (integer division): the largest angle among those positions.
  With distinct frame numbers, the frame returned is none of the first half's.
\<close>

theorem back_max_extension_in_second_half:
  assumes "2 \<le> length (valid_angles xs)"
  shows "\<exists>bfc_angle flex ext bfc_frame flex_frame ext_frame dev p.
           analyze_back_knee_phases xs =
             Inr (Some (bfc_angle, flex, ext, bfc_frame, flex_frame, ext_frame, dev)) \<and>
           length (valid_angles xs) div 2 \<le> p \<and> p < length (valid_angles xs) \<and>
           ext = Some (snd (valid_angles xs ! p)) \<and> ext_frame = fst (valid_angles xs ! p) \<and>
           (\<forall>q. length (valid_angles xs) div 2 \<le> q \<and> q < length (valid_angles xs) \<longrightarrow>
                snd (valid_angles xs ! q) \<le> snd (valid_angles xs ! p)) \<and>
           (distinct (map fst (valid_angles xs)) \<longrightarrow>
              ext_frame \<notin> set (map fst (take (length (valid_angles xs) div 2) (valid_angles xs))))"
proof -
  let ?v = "valid_angles xs"
  let ?n = "length ?v"
  let ?angles = "map snd ?v"
  let ?h = "?n div 2"
  let ?p = "?h + first_max (drop ?h ?angles)"
  have vne: "?v \<noteq> []" using assms by auto
  have xne: "xs \<noteq> []" using vne by (auto simp: valid_angles_def)
  have h: "?h < ?n" using assms by simp
  have dne: "drop ?h ?angles \<noteq> []" using h by simp
  have "first_max (drop ?h ?angles) < length (drop ?h ?angles)" using dne by (rule first_max_less)
  then have p: "?p < ?n" by simp
  have run: "analyze_back_knee_phases xs =
      Inr (Some (Some (?angles ! 0), Some (?angles ! first_min ?angles), Some (?angles ! ?p),
        map fst ?v ! 0, map fst ?v ! first_min ?angles, map fst ?v ! ?p,
        deviation (Some (?angles ! ?p)) (Some (?angles ! 0))))"
    using vne xne dne
    by (simp add: analyze_back_knee_phases_def Let_def np_argmin_def np_argmax_def bind_err_def)
  have mx: "\<forall>q. ?h \<le> q \<and> q < ?n \<longrightarrow> snd (?v ! q) \<le> snd (?v ! ?p)"
  proof (intro allI impI)
    fix q assume q: "?h \<le> q \<and> q < ?n"
    then have "?angles ! q \<le> ?angles ! ?p"
      using first_max_drop_ge[of ?h q ?angles] by simp
    then show "snd (?v ! q) \<le> snd (?v ! ?p)" using q p by simp
  qed
  have nf: "fst (?v ! ?p) \<notin> set (map fst (take ?h ?v))" if d: "distinct (map fst ?v)"
  proof
    assume "fst (?v ! ?p) \<in> set (map fst (take ?h ?v))"
    then obtain j where j: "j < ?h" "fst (?v ! j) = fst (?v ! ?p)"
      by (auto simp: in_set_conv_nth)
    have jl: "j < length (map fst ?v)" using j(1) h by simp
    have pl: "?p < length (map fst ?v)" using p by simp
    have "map fst ?v ! j = map fst ?v ! ?p" using j(2) jl pl by simp
    then have "j = ?p" using nth_eq_iff_index_eq[OF d jl pl] by blast
    then show False using j(1) by linarith
  qed
  have hp: "?h \<le> ?p" by simp
  have sp: "?angles ! ?p = snd (?v ! ?p)" using p by simp
  have fp: "map fst ?v ! ?p = fst (?v ! ?p)" using p by simp
  show ?thesis
    unfolding run sp fp
    apply (rule exI[of _ "Some (?angles ! 0)"])
    apply (rule exI[of _ "Some (?angles ! first_min ?angles)"])
    apply (rule exI[of _ "Some (snd (?v ! ?p))"])
    apply (rule exI[of _ "map fst ?v ! 0"])
    apply (rule exI[of _ "map fst ?v ! first_min ?angles"])
    apply (rule exI[of _ "fst (?v ! ?p)"])
    apply (rule exI[of _ "deviation (Some (snd (?v ! ?p))) (Some (?angles ! 0))"])
    apply (rule exI[of _ "?p"])
    using hp p mx nf by blast
qed

theorem back_max_extension_in_second_half_witness:
  "2 \<le> length (valid_angles back_knee_series) \<and>
   analyze_back_knee_phases back_knee_series =
     Inr (Some (Some 170, Some 90, Some 165, 1, 3, 5, Some (- 5)))"
proof -
  have v: "valid_angles back_knee_series = [(1, 170), (3, 90), (4, 160), (5, 165)]"
    by (simp add: valid_angles_def back_knee_series_def)
  have a: "2 \<le> length (valid_angles back_knee_series)" by (simp add: v)
  have ne: "back_knee_series \<noteq> []" by (simp add: back_knee_series_def)
  have r: "analyze_back_knee_phases back_knee_series =
     Inr (Some (Some 170, Some 90, Some 165, 1, 3, 5, Some (- 5)))"
    using ne
    by (simp add: analyze_back_knee_phases_def v Let_def np_argmin_def np_argmax_def bind_err_def
        deviation_def f_sub_def)
  from back_max_extension_in_second_half[OF a] a r show ?thesis by simp
qed

section \<open>Properties of the entry point\<close>












lemma analyze_bowling_on_path: "analyze_bowling (PyStr ''uploads/video.mp4'') =
   Inr \<lparr>status = ''error'', message = ''str object has no attribute iterrows'', details = None\<rparr>"
  by (simp add: analyze_bowling_def summary_of_def)

section \<open>Properties of the Frame Feature Extractor\<close>


lemma bind_err_simps [simp]:
  "bind_err (Inr x) f = f x" "bind_err (Inl e) f = Inl e"
  by (simp_all add: bind_err_def)

lemma row_item_has: "cols r k \<noteq> None \<Longrightarrow> row_item r k = Inr (row_get r k None)"
  by (auto simp: row_item_def row_get_def)


lemma lm_has: "has_lm r n \<Longrightarrow> lm r n = Inr (lmk r n)"
  by (simp add: has_lm_def lm_def lmk_def row_item_has)


lemma angle_of_has:
  "has_lm r a \<Longrightarrow> has_lm r b \<Longrightarrow> has_lm r c \<Longrightarrow>
   angle_of r a b c = Inr (calculate_angle (lmk r a) (lmk r b) (lmk r c))"
  by (simp add: angle_of_def lm_has)


lemma shoulder_alignment_has:
  "has_lm r ''LEFT_SHOULDER'' \<Longrightarrow> has_lm r ''RIGHT_SHOULDER'' \<Longrightarrow>
   shoulder_alignment_of r =
     Inr (f_mul (map_option abs (f_sub (snd (lmk r ''LEFT_SHOULDER'')) (snd (lmk r ''RIGHT_SHOULDER''))))
           (Some 57.2958))"
  by (simp add: shoulder_alignment_of_def has_lm_def lmk_def row_item_has)

lemma pelvis_has:
  "has_lm r ''LEFT_HIP'' \<Longrightarrow> has_lm r ''RIGHT_HIP'' \<Longrightarrow>
   pelvis_rotation_of r =
     Inr (calculate_angle (lmk r ''LEFT_HIP'') (lmk r ''RIGHT_HIP'') (offset_x (lmk r ''RIGHT_HIP'')))"
  by (simp add: pelvis_rotation_of_def lm_has)

lemma midpoint_of_has:
  "has_lm r a \<Longrightarrow> has_lm r b \<Longrightarrow> midpoint_of r a b = Inr (midpoint (lmk r a) (lmk r b))"
  by (simp add: midpoint_of_def has_lm_def lmk_def row_item_has)

lemma spine_has:
  "has_lm r ''LEFT_HIP'' \<Longrightarrow> has_lm r ''RIGHT_HIP'' \<Longrightarrow>
   has_lm r ''LEFT_SHOULDER'' \<Longrightarrow> has_lm r ''RIGHT_SHOULDER'' \<Longrightarrow>
   spine_angle_of r =
     Inr (calculate_angle (midpoint (lmk r ''LEFT_HIP'') (lmk r ''RIGHT_HIP''))
            (midpoint (lmk r ''LEFT_SHOULDER'') (lmk r ''RIGHT_SHOULDER''))
            (offset_x (midpoint (lmk r ''LEFT_SHOULDER'') (lmk r ''RIGHT_SHOULDER''))))"
  by (simp add: spine_angle_of_def midpoint_of_has)

lemma has_columns_lm:
  "has_columns r \<longleftrightarrow>
     has_lm r ''NOSE'' \<and> has_lm r ''LEFT_SHOULDER'' \<and> has_lm r ''RIGHT_SHOULDER'' \<and>
     has_lm r ''LEFT_ELBOW'' \<and> has_lm r ''RIGHT_ELBOW'' \<and> has_lm r ''LEFT_WRIST'' \<and>
     has_lm r ''RIGHT_WRIST'' \<and> has_lm r ''LEFT_HIP'' \<and> has_lm r ''RIGHT_HIP'' \<and>
     has_lm r ''LEFT_KNEE'' \<and> has_lm r ''RIGHT_KNEE'' \<and> has_lm r ''LEFT_ANKLE'' \<and>
     has_lm r ''RIGHT_ANKLE'' \<and> has_lm r ''LEFT_FOOT_INDEX'' \<and> has_lm r ''RIGHT_FOOT_INDEX''"
  by (simp add: has_columns_def landmarks_def)

lemma rest_of_frame_has:
  assumes "has_columns r"
  shows "rest_of_frame self r
           (calculate_angle (lmk r ''RIGHT_HIP'') (lmk r ''RIGHT_KNEE'') (lmk r ''RIGHT_ANKLE''))
           (calculate_angle (lmk r ''RIGHT_SHOULDER'') (lmk r ''RIGHT_ELBOW'') (lmk r ''RIGHT_WRIST''))
           (calculate_angle (lmk r ''LEFT_HIP'') (lmk r ''LEFT_KNEE'') (lmk r ''LEFT_ANKLE''))
         = Inr (landmark_features self r)"
  using assms unfolding has_columns_lm rest_of_frame_def landmark_features_def
  by (simp add: angle_of_has shoulder_alignment_has pelvis_has spine_has)

lemma process_frame_has:
  assumes "has_columns r"
  shows "process_frame self r =
           ([(frame r, Front_Knee_Angle (landmark_features self r))],
            [(frame r, Back_Knee_Angle (landmark_features self r))],
            landmark_features self r)"
proof -
  have h: "has_lm r ''RIGHT_HIP''" "has_lm r ''RIGHT_KNEE''" "has_lm r ''RIGHT_ANKLE''"
    "has_lm r ''RIGHT_SHOULDER''" "has_lm r ''RIGHT_ELBOW''" "has_lm r ''RIGHT_WRIST''"
    "has_lm r ''LEFT_HIP''" "has_lm r ''LEFT_KNEE''" "has_lm r ''LEFT_ANKLE''"
    using assms by (simp_all add: has_columns_lm)
  have f: "Front_Knee_Angle (landmark_features self r) =
       calculate_angle (lmk r ''RIGHT_HIP'') (lmk r ''RIGHT_KNEE'') (lmk r ''RIGHT_ANKLE'')"
    "Back_Knee_Angle (landmark_features self r) =
       calculate_angle (lmk r ''LEFT_HIP'') (lmk r ''LEFT_KNEE'') (lmk r ''LEFT_ANKLE'')"
    by (simp_all add: landmark_features_def)
  show ?thesis
    unfolding process_frame_def f
    by (simp add: angle_of_has h rest_of_frame_has[OF assms])
qed




lemma calculate_angle_defined:
  "calculate_angle a b c \<noteq> None \<longleftrightarrow> numeric a \<and> numeric b \<and> numeric c \<and> a \<noteq> b \<and> c \<noteq> b"
  by (cases a; cases b; cases c)
     (auto simp: calculate_angle_def numeric_def vsub_def np_dot_def np_norm_def np_clip_def
        np_arccos_def np_degrees_def f_add_def f_sub_def f_mul_def f_div_def Let_def
        sum_squares_eq_zero_iff split: option.splits)

section \<open>The example pose, evaluated\<close>

lemma wm_has: "has_columns wrist_missing_row"
  by (simp add: has_columns_lm has_lm_def wrist_missing_row_def pose_row_def pose_def)

lemma wm_lmk:
  "lmk wrist_missing_row ''NOSE'' = (Some 0.5, Some 0.2)"
  "lmk wrist_missing_row ''LEFT_SHOULDER'' = (Some 0.55, Some 0.3)"
  "lmk wrist_missing_row ''RIGHT_SHOULDER'' = (Some 0.45, Some 0.3)"
  "lmk wrist_missing_row ''LEFT_ELBOW'' = (Some 0.6, Some 0.4)"
  "lmk wrist_missing_row ''RIGHT_ELBOW'' = (Some 0.4, Some 0.4)"
  "lmk wrist_missing_row ''LEFT_WRIST'' = (Some 0.62, Some 0.5)"
  "lmk wrist_missing_row ''RIGHT_WRIST'' = (None, None)"
  "lmk wrist_missing_row ''LEFT_HIP'' = (Some 0.54, Some 0.55)"
  "lmk wrist_missing_row ''RIGHT_HIP'' = (Some 0.46, Some 0.55)"
  "lmk wrist_missing_row ''LEFT_KNEE'' = (Some 0.55, Some 0.7)"
  "lmk wrist_missing_row ''RIGHT_KNEE'' = (Some 0.45, Some 0.7)"
  "lmk wrist_missing_row ''LEFT_ANKLE'' = (Some 0.56, Some 0.85)"
  "lmk wrist_missing_row ''RIGHT_ANKLE'' = (Some 0.44, Some 0.85)"
  "lmk wrist_missing_row ''LEFT_FOOT_INDEX'' = (Some 0.58, Some 0.9)"
  "lmk wrist_missing_row ''RIGHT_FOOT_INDEX'' = (Some 0.42, Some 0.9)"
  by (simp_all add: lmk_def row_get_def wrist_missing_row_def pose_row_def pose_def)

lemma calculate_angle_None:
  "calculate_angle a b c = None \<longleftrightarrow> \<not> (numeric a \<and> numeric b \<and> numeric c \<and> a \<noteq> b \<and> c \<noteq> b)"
  using calculate_angle_defined[of a b c] by blast

lemma wm_defined:
  "Elbow_Angle (landmark_features self wrist_missing_row) = None"
  "Bowling_Arm_Angle (landmark_features self wrist_missing_row) = None"
  "Front_Knee_Angle (landmark_features self wrist_missing_row) \<noteq> None"
  "Back_Knee_Angle (landmark_features self wrist_missing_row) \<noteq> None"
  "Trunk_Lean (landmark_features self wrist_missing_row) \<noteq> None"
  "Hip_Shoulder_Separation (landmark_features self wrist_missing_row) \<noteq> None"
  "Shoulder_Alignment (landmark_features self wrist_missing_row) \<noteq> None"
  "Non_Bowling_Arm_Angle (landmark_features self wrist_missing_row) \<noteq> None"
  "Head_Position (landmark_features self wrist_missing_row) \<noteq> None"
  "Pelvis_Rotation (landmark_features self wrist_missing_row) \<noteq> None"
  "Front_Ankle_Angle (landmark_features self wrist_missing_row) \<noteq> None"
  "Back_Ankle_Angle (landmark_features self wrist_missing_row) \<noteq> None"
  "Spine_Angle (landmark_features self wrist_missing_row) \<noteq> None"
  by (simp_all add: landmark_features_def wm_lmk calculate_angle_defined calculate_angle_None
      numeric_def offset_x_def
      midpoint_def f_add_def f_div_def f_sub_def f_mul_def del: not_None_eq)

section \<open>Properties of the extraction and of the Summary Aggregator\<close>

lemma detect_df:
  assumes "detect_front_foot_contact self = Inr self1"
  shows "df self1 = df self \<and> ffc_frame self1 \<noteq> None"
proof (cases "any_valid (front_ankle_y (df self))")
  case True
  from detect_ankle[OF True] assms show ?thesis by auto
next
  case False
  show ?thesis
  proof (cases "df self = []")
    case True
    from detect_empty[OF True] assms show ?thesis by simp
  next
    case ne: False
    from detect_fallback[OF False ne] assms show ?thesis by auto
  qed
qed


lemma extract_after_detect:
  assumes "ffc_frame self = None" "detect_front_foot_contact self = Inr self1"
    "ffc_frame self1 = Some ffc" "filter (\<lambda>r. ffc \<le> frame r) (df self1) = post" "post \<noteq> []"
  shows "extract_features_post_ffc self =
     Inr (self1, Extracted (map (\<lambda>r. snd (snd (process_frame self1 r))) post)
                           (concat (map (\<lambda>r. fst (process_frame self1 r)) post))
                           (concat (map (\<lambda>r. fst (snd (process_frame self1 r))) post)))"
  using assms by (simp add: extract_features_post_ffc_def Let_def comp_def)

lemma summary_after_extract:
  assumes "extract_features_post_ffc self = Inr (self1, Extracted feats fk bk)" "feats \<noteq> []"
    "analyze_front_knee_phases fk = Inr front" "analyze_back_knee_phases bk = Inr back"
  shows "calculate_biomechanical_summary self =
     Inr (optional_release_row self1 ''Elbow Angle'' Elbow_Angle (release_window feats) @
          front_knee_rows self1 front @
          back_knee_rows self1 back @
          optional_release_row self1 ''Back Knee Angle'' Back_Knee_Angle (release_window feats) @
          map (comprehensive_row self1 (release_window feats)) comprehensive_features)"
  using assms by (simp add: calculate_biomechanical_summary_def Let_def)

lemma front_single:
  "a \<noteq> None \<Longrightarrow> analyze_front_knee_phases [(f, a)] = Inr (Some (a, a, a, f, f, f, Some 0))"
  by (auto simp: analyze_front_knee_phases_def valid_angles_def Let_def np_argmin_def np_argmax_def
      deviation_def f_sub_def)

lemma back_single:
  "a \<noteq> None \<Longrightarrow> analyze_back_knee_phases [(f, a)] = Inr (Some (a, a, a, f, f, f, Some 0))"
  by (auto simp: analyze_back_knee_phases_def valid_angles_def Let_def np_argmin_def np_argmax_def
      deviation_def f_sub_def)

lemma front_second:
  "a \<noteq> None \<Longrightarrow>
   analyze_front_knee_phases [(f0, None), (f1, a)] = Inr (Some (a, a, a, f1, f1, f1, Some 0))"
  by (auto simp: analyze_front_knee_phases_def valid_angles_def Let_def np_argmin_def np_argmax_def
      deviation_def f_sub_def)

lemma back_twice:
  "a \<noteq> None \<Longrightarrow>
   analyze_back_knee_phases [(f0, a), (f1, a)] = Inr (Some (a, a, a, f0, f0, f1, Some 0))"
  by (auto simp: analyze_back_knee_phases_def valid_angles_def Let_def np_argmin_def np_argmax_def
      deviation_def f_sub_def)

lemma dropna_single: "dropna [x] = (case x of None \<Rightarrow> [] | Some v \<Rightarrow> [v])"
  by (simp add: dropna_def)

lemma phase_row_names:
  "map (\<lambda>r. (Feature r, Frames r)) (phase_row self n v ph ffc) = (if v \<noteq> None then [(n, 1)] else [])"
  by (simp add: phase_row_def)

lemma optional_row_names:
  "map (\<lambda>r. (Feature r, Frames r)) (optional_release_row self n col [F]) =
     (if col F \<noteq> None then [(n, 1)] else [])"
  by (cases "col F") (simp_all add: optional_release_row_def dropna_single release_row_def Let_def)

lemma comprehensive_row_names:
  "(\<lambda>r. (Feature r, Frames r)) (comprehensive_row self [F] (n, col)) =
     (n, if col F \<noteq> None then 1 else 0)"
  by (cases "col F")
     (simp_all add: comprehensive_row_def dropna_single release_row_def empty_row_def Let_def)

lemma wm_frame: "frame wrist_missing_row = 0"
  by (simp add: wrist_missing_row_def pose_row_def)

lemma wm_ankle: "row_get wrist_missing_row ''RIGHT_ANKLE_y'' None = Some 0.85"
  by (simp add: row_get_def wrist_missing_row_def pose_row_def pose_def)

lemma wm_detect:
  "detect_front_foot_contact (init_extractor wrist_missing_table) =
     Inr \<lparr>df = wrist_missing_table, ffc_frame = Some 0, ball_release_frame = Some 0\<rparr>"
  by (simp add: wrist_missing_table_def front_ankle_y_def wm_ankle wm_frame
      detect_front_foot_contact_def ffc_candidates_def valid_values_def any_valid_def
      np_argmax_def iloc_def init_extractor_def Let_def del: not_None_eq)

lemma wm_extract:
  "extract_features_post_ffc (init_extractor wrist_missing_table) =
     Inr (\<lparr>df = wrist_missing_table, ffc_frame = Some 0, ball_release_frame = Some 0\<rparr>,
          Extracted
            [landmark_features \<lparr>df = wrist_missing_table, ffc_frame = Some 0, ball_release_frame = Some 0\<rparr> wrist_missing_row]
            [(0, Front_Knee_Angle (landmark_features \<lparr>df = wrist_missing_table, ffc_frame = Some 0, ball_release_frame = Some 0\<rparr> wrist_missing_row))]
            [(0, Back_Knee_Angle (landmark_features \<lparr>df = wrist_missing_table, ffc_frame = Some 0, ball_release_frame = Some 0\<rparr> wrist_missing_row))])"
proof -
  let ?s = "\<lparr>df = wrist_missing_table, ffc_frame = Some 0, ball_release_frame = Some 0\<rparr>"
  have n: "ffc_frame (init_extractor wrist_missing_table) = None" by (simp add: init_extractor_def)
  have f: "ffc_frame ?s = Some 0" by simp
  have p: "filter (\<lambda>r. 0 \<le> frame r) (df ?s) = [wrist_missing_row]"
    by (simp add: wrist_missing_table_def wm_frame)
  show ?thesis
    using extract_after_detect[OF n wm_detect f p]
    by (simp add: process_frame_has[OF wm_has] wm_frame)
qed







text \<open>
  Claim C1. The code does not do what the claim says for Elbow Angle (nor for Back Knee
  Angle): on the one-frame table whose right wrist is NaN, the report has no row
  \<open>Elbow Angle\<close>, while the row \<open>Bowling Arm Angle\<close>, the same angle read in the
  loop over \<open>comprehensive_features\<close>, is there with count 0.
\<close>

theorem elbow_row_omitted:
  "\<exists>rows. calculate_biomechanical_summary (init_extractor wrist_missing_table) = Inr rows \<and>
     map (\<lambda>r. (Feature r, Frames r)) rows =
       [(''Front Knee at FFC'', 1), (''Front Knee Max Flexion'', 1),
        (''Front Knee Max Extension'', 1), (''Knee Angle Deviation'', 1),
        (''Back Knee at BFC'', 1), (''Back Knee Max Flexion'', 1),
        (''Back Knee Max Extension'', 1), (''Back Knee Deviation'', 1),
        (''Back Knee Angle'', 1), (''Trunk Lean'', 1), (''Hip-Shoulder Separation'', 1),
        (''Shoulder Alignment'', 1), (''Bowling Arm Angle'', 0),
        (''Non-Bowling Arm Angle'', 1), (''Head Position'', 1), (''Pelvis Rotation'', 1),
        (''Front Ankle Angle'', 1), (''Back Ankle Angle'', 1), (''Spine Angle'', 1)]"
proof -
  let ?s1 = "\<lparr>df = wrist_missing_table, ffc_frame = Some 0, ball_release_frame = Some 0\<rparr>"
  let ?F = "landmark_features ?s1 wrist_missing_row"
  note d = wm_defined[of ?s1]
  have ne: "[?F] \<noteq> []" by simp
  have w: "release_window [?F] = [?F]"
    by (simp add: release_window_def landmark_features_def wm_frame)
  note run = summary_after_extract[OF wm_extract ne front_single[OF d(3)] back_single[OF d(4)]]
  show ?thesis
    unfolding run w
    by (simp add: d front_knee_rows_def back_knee_rows_def phase_row_names optional_row_names
        comprehensive_row_names comprehensive_features_def del: not_None_eq)
qed

lemma phase_row_frames:
  "map (\<lambda>r. (Feature r, FFC_Frame r, Release_Frame r)) (phase_row self n v ph ffc) =
     (if v \<noteq> None then [(n, ffc, ball_release_frame self)] else [])"
  by (simp add: phase_row_def)

lemma optional_row_frames:
  "map (\<lambda>r. (Feature r, FFC_Frame r, Release_Frame r)) (optional_release_row self n col [F]) =
     (if col F \<noteq> None then [(n, ffc_frame self, ball_release_frame self)] else [])"
  by (cases "col F") (simp_all add: optional_release_row_def dropna_single release_row_def Let_def)

lemma comprehensive_row_frames:
  "(\<lambda>r. (Feature r, FFC_Frame r, Release_Frame r)) (comprehensive_row self W (n, col)) =
     (n, ffc_frame self, ball_release_frame self)"
  by (simp add: comprehensive_row_def release_row_def empty_row_def Let_def)

lemma km_has: "has_columns knee_missing_row"
  by (simp add: has_columns_lm has_lm_def knee_missing_row_def pose_row_def pose_def)

lemma la_has: "has_columns lifted_ankle_row"
  by (simp add: has_columns_lm has_lm_def lifted_ankle_row_def pose_row_def pose_def)

lemma km_frame: "frame knee_missing_row = 0"
  by (simp add: knee_missing_row_def pose_row_def)

lemma la_frame: "frame lifted_ankle_row = 1"
  by (simp add: lifted_ankle_row_def pose_row_def)

lemma km_ankle: "row_get knee_missing_row ''RIGHT_ANKLE_y'' None = Some 0.85"
  by (simp add: row_get_def knee_missing_row_def pose_row_def pose_def)

lemma la_ankle: "row_get lifted_ankle_row ''RIGHT_ANKLE_y'' None = Some 0.8"
  by (simp add: row_get_def lifted_ankle_row_def pose_row_def pose_def)

lemma km_lmk:
  "lmk knee_missing_row ''RIGHT_HIP'' = (Some 0.46, Some 0.55)"
  "lmk knee_missing_row ''RIGHT_KNEE'' = (None, None)"
  "lmk knee_missing_row ''RIGHT_ANKLE'' = (Some 0.44, Some 0.85)"
  "lmk knee_missing_row ''LEFT_HIP'' = (Some 0.54, Some 0.55)"
  "lmk knee_missing_row ''LEFT_KNEE'' = (Some 0.55, Some 0.7)"
  "lmk knee_missing_row ''LEFT_ANKLE'' = (Some 0.56, Some 0.85)"
  by (simp_all add: lmk_def row_get_def knee_missing_row_def pose_row_def pose_def)

lemma la_lmk:
  "lmk lifted_ankle_row ''NOSE'' = (Some 0.5, Some 0.2)"
  "lmk lifted_ankle_row ''LEFT_SHOULDER'' = (Some 0.55, Some 0.3)"
  "lmk lifted_ankle_row ''RIGHT_SHOULDER'' = (Some 0.45, Some 0.3)"
  "lmk lifted_ankle_row ''LEFT_ELBOW'' = (Some 0.6, Some 0.4)"
  "lmk lifted_ankle_row ''RIGHT_ELBOW'' = (Some 0.4, Some 0.4)"
  "lmk lifted_ankle_row ''LEFT_WRIST'' = (Some 0.62, Some 0.5)"
  "lmk lifted_ankle_row ''RIGHT_WRIST'' = (Some 0.38, Some 0.5)"
  "lmk lifted_ankle_row ''LEFT_HIP'' = (Some 0.54, Some 0.55)"
  "lmk lifted_ankle_row ''RIGHT_HIP'' = (Some 0.46, Some 0.55)"
  "lmk lifted_ankle_row ''LEFT_KNEE'' = (Some 0.55, Some 0.7)"
  "lmk lifted_ankle_row ''RIGHT_KNEE'' = (Some 0.45, Some 0.7)"
  "lmk lifted_ankle_row ''LEFT_ANKLE'' = (Some 0.56, Some 0.85)"
  "lmk lifted_ankle_row ''RIGHT_ANKLE'' = (Some 0.44, Some 0.8)"
  "lmk lifted_ankle_row ''LEFT_FOOT_INDEX'' = (Some 0.58, Some 0.9)"
  "lmk lifted_ankle_row ''RIGHT_FOOT_INDEX'' = (Some 0.42, Some 0.9)"
  by (simp_all add: lmk_def row_get_def lifted_ankle_row_def pose_row_def pose_def)

lemma la_defined:
  "Elbow_Angle (landmark_features self lifted_ankle_row) \<noteq> None"
  "Front_Knee_Angle (landmark_features self lifted_ankle_row) \<noteq> None"
  "Back_Knee_Angle (landmark_features self lifted_ankle_row) \<noteq> None"
  "Trunk_Lean (landmark_features self lifted_ankle_row) \<noteq> None"
  "Hip_Shoulder_Separation (landmark_features self lifted_ankle_row) \<noteq> None"
  "Shoulder_Alignment (landmark_features self lifted_ankle_row) \<noteq> None"
  "Bowling_Arm_Angle (landmark_features self lifted_ankle_row) \<noteq> None"
  "Non_Bowling_Arm_Angle (landmark_features self lifted_ankle_row) \<noteq> None"
  "Head_Position (landmark_features self lifted_ankle_row) \<noteq> None"
  "Pelvis_Rotation (landmark_features self lifted_ankle_row) \<noteq> None"
  "Front_Ankle_Angle (landmark_features self lifted_ankle_row) \<noteq> None"
  "Back_Ankle_Angle (landmark_features self lifted_ankle_row) \<noteq> None"
  "Spine_Angle (landmark_features self lifted_ankle_row) \<noteq> None"
  by (simp_all add: landmark_features_def la_lmk calculate_angle_defined numeric_def offset_x_def
      midpoint_def f_add_def f_div_def f_sub_def f_mul_def del: not_None_eq)

lemma km_knees:
  "Front_Knee_Angle (landmark_features self knee_missing_row) = None"
  "Back_Knee_Angle (landmark_features self knee_missing_row) =
     Back_Knee_Angle (landmark_features self lifted_ankle_row)"
  by (simp_all add: landmark_features_def km_lmk la_lmk calculate_angle_None numeric_def)

lemma km_detect:
  "detect_front_foot_contact (init_extractor knee_missing_table) =
     Inr \<lparr>df = knee_missing_table, ffc_frame = Some 0, ball_release_frame = Some 1\<rparr>"
  by (simp add: knee_missing_table_def front_ankle_y_def km_ankle la_ankle km_frame la_frame
      detect_front_foot_contact_def ffc_candidates_def valid_values_def any_valid_def
      np_argmax_def iloc_def init_extractor_def Let_def del: not_None_eq)

lemma km_extract:
  "extract_features_post_ffc (init_extractor knee_missing_table) =
     Inr (\<lparr>df = knee_missing_table, ffc_frame = Some 0, ball_release_frame = Some 1\<rparr>,
          Extracted
            [landmark_features \<lparr>df = knee_missing_table, ffc_frame = Some 0, ball_release_frame = Some 1\<rparr> knee_missing_row,
             landmark_features \<lparr>df = knee_missing_table, ffc_frame = Some 0, ball_release_frame = Some 1\<rparr> lifted_ankle_row]
            [(0, None),
             (1, Front_Knee_Angle (landmark_features \<lparr>df = knee_missing_table, ffc_frame = Some 0, ball_release_frame = Some 1\<rparr> lifted_ankle_row))]
            [(0, Back_Knee_Angle (landmark_features \<lparr>df = knee_missing_table, ffc_frame = Some 0, ball_release_frame = Some 1\<rparr> lifted_ankle_row)),
             (1, Back_Knee_Angle (landmark_features \<lparr>df = knee_missing_table, ffc_frame = Some 0, ball_release_frame = Some 1\<rparr> lifted_ankle_row))])"
proof -
  let ?s = "\<lparr>df = knee_missing_table, ffc_frame = Some 0, ball_release_frame = Some 1\<rparr>"
  have n: "ffc_frame (init_extractor knee_missing_table) = None" by (simp add: init_extractor_def)
  have f: "ffc_frame ?s = Some 0" by simp
  have p: "filter (\<lambda>r. 0 \<le> frame r) (df ?s) = [knee_missing_row, lifted_ankle_row]"
    by (simp add: knee_missing_table_def km_frame la_frame)
  show ?thesis
    using extract_after_detect[OF n km_detect f p]
    by (simp add: process_frame_has[OF km_has] process_frame_has[OF la_has] km_frame la_frame
        km_knees)
qed

text \<open>
  Claim C6. The code does not do what the claim says for the row \<open>Front Knee at FFC\<close>:
  on \<open>knee_missing_table\<close> FFC is frame 0 and ball release frame 1, and that row
  carries frame 1, the first frame with a front-knee angle, in \<open>FFC_Frame\<close>; every
  other row carries frame 0.
\<close>

theorem front_knee_row_carries_local_frame:
  "detect_front_foot_contact (init_extractor knee_missing_table) =
     Inr \<lparr>df = knee_missing_table, ffc_frame = Some 0, ball_release_frame = Some 1\<rparr> \<and>
   (\<exists>rows. calculate_biomechanical_summary (init_extractor knee_missing_table) = Inr rows \<and>
     map (\<lambda>r. (Feature r, FFC_Frame r, Release_Frame r)) rows =
       [(''Elbow Angle'', Some 0, Some 1),
        (''Front Knee at FFC'', Some 1, Some 1),
        (''Front Knee Max Flexion'', Some 0, Some 1),
        (''Front Knee Max Extension'', Some 0, Some 1),
        (''Knee Angle Deviation'', Some 0, Some 1),
        (''Back Knee at BFC'', Some 0, Some 1),
        (''Back Knee Max Flexion'', Some 0, Some 1),
        (''Back Knee Max Extension'', Some 0, Some 1),
        (''Back Knee Deviation'', Some 0, Some 1),
        (''Back Knee Angle'', Some 0, Some 1),
        (''Trunk Lean'', Some 0, Some 1),
        (''Hip-Shoulder Separation'', Some 0, Some 1),
        (''Shoulder Alignment'', Some 0, Some 1),
        (''Bowling Arm Angle'', Some 0, Some 1),
        (''Non-Bowling Arm Angle'', Some 0, Some 1),
        (''Head Position'', Some 0, Some 1),
        (''Pelvis Rotation'', Some 0, Some 1),
        (''Front Ankle Angle'', Some 0, Some 1),
        (''Back Ankle Angle'', Some 0, Some 1),
        (''Spine Angle'', Some 0, Some 1)])"
proof -
  let ?s = "\<lparr>df = knee_missing_table, ffc_frame = Some 0, ball_release_frame = Some 1\<rparr>"
  let ?F0 = "landmark_features ?s knee_missing_row"
  let ?F1 = "landmark_features ?s lifted_ankle_row"
  note d = la_defined[of ?s]
  have ne: "[?F0, ?F1] \<noteq> []" by simp
  have w: "release_window [?F0, ?F1] = [?F1]"
    by (simp add: release_window_def landmark_features_def km_frame la_frame)
  note run = summary_after_extract[OF km_extract ne front_second[OF d(2)] back_twice[OF d(3)]]
  have "\<exists>rows. calculate_biomechanical_summary (init_extractor knee_missing_table) = Inr rows \<and>
     map (\<lambda>r. (Feature r, FFC_Frame r, Release_Frame r)) rows =
       [(''Elbow Angle'', Some 0, Some 1),
        (''Front Knee at FFC'', Some 1, Some 1),
        (''Front Knee Max Flexion'', Some 0, Some 1),
        (''Front Knee Max Extension'', Some 0, Some 1),
        (''Knee Angle Deviation'', Some 0, Some 1),
        (''Back Knee at BFC'', Some 0, Some 1),
        (''Back Knee Max Flexion'', Some 0, Some 1),
        (''Back Knee Max Extension'', Some 0, Some 1),
        (''Back Knee Deviation'', Some 0, Some 1),
        (''Back Knee Angle'', Some 0, Some 1),
        (''Trunk Lean'', Some 0, Some 1),
        (''Hip-Shoulder Separation'', Some 0, Some 1),
        (''Shoulder Alignment'', Some 0, Some 1),
        (''Bowling Arm Angle'', Some 0, Some 1),
        (''Non-Bowling Arm Angle'', Some 0, Some 1),
        (''Head Position'', Some 0, Some 1),
        (''Pelvis Rotation'', Some 0, Some 1),
        (''Front Ankle Angle'', Some 0, Some 1),
        (''Back Ankle Angle'', Some 0, Some 1),
        (''Spine Angle'', Some 0, Some 1)]"
    unfolding run w
    by (simp add: d front_knee_rows_def back_knee_rows_def phase_row_frames optional_row_frames
        comprehensive_row_frames comprehensive_features_def del: not_None_eq)
  then show ?thesis using km_detect by simp
qed

end
